theory Spec2Isabelle
  imports Main "HOL-Library.Word"
begin

unbundle bit_operations_syntax

section \<open>Outcomes of an operation\<close>

text \<open>
  The exceptions \<^verbatim>\<open>environment.cc\<close> throws, and the ways a call can end: it returns
  (\<open>Ok\<close>), it throws with the state as it is at the throw (\<open>Threw\<close>), an \<^verbatim>\<open>assert\<close>
  fails and the process aborts (\<open>Aborted\<close>), or it uses an iterator or pointer that
  no longer refers to anything (\<open>Undefined\<close>).
\<close>

datatype error = logic_error string | js_fatal_error string | js_runtime_error

datatype 'a result = Ok 'a | Threw error 'a | Aborted string | Undefined string

type_synonym size_t = "64 word"

section \<open>The engine, as this file uses it\<close>

text \<open>
  The v8 isolate is outside the repository. The model keeps what the file reads from it
  (the two heap statistics it looks at) and the list of calls made on it, in order. How
  the engine answers a call is the parameter \<open>engine\<close>: the statistics after the call,
  from the call and the isolate before it. \<^verbatim>\<open>GetHeapStatistics\<close> only reads.
\<close>

datatype MemoryPressureLevel = kNone | kModerate | kCritical

datatype interrupt_callback = AsyncCallbackInterrupt | SyncCallbackInterrupt | MemoryPressureInterrupt

datatype engine_call =
    LowMemoryNotification
  | MemoryPressureNotification MemoryPressureLevel
  | RequestInterrupt interrupt_callback
  | TerminateExecution
  | RemoveNearHeapLimitCallback size_t
  | AddNearHeapLimitCallback
  | SetStackLimit nat
  | Locker_ctor
  | Locker_dtor
  | Dispose "nat option"

record HeapStatistics =
  used_heap_size :: size_t
  heap_size_limit :: size_t

record Isolate =
  address :: nat
  heap :: HeapStatistics
  calls :: "engine_call list"

definition v8 :: "(engine_call \<Rightarrow> Isolate \<Rightarrow> HeapStatistics) \<Rightarrow> engine_call \<Rightarrow> Isolate \<Rightarrow> Isolate" where
  "v8 engine c vm = vm\<lparr>heap := engine c vm, calls := calls vm @ [c]\<rparr>"

section \<open>Scheduler\<close>

datatype Status = Waiting | Running

record 'r Scheduler =
  status :: Status
  tasks :: "'r list"
  handle_tasks :: "'r list"
  interrupts :: "'r list"
  sync_interrupts :: "'r list"
  thread_affinity :: nat

text \<open>
  The static members of \<^verbatim>\<open>Scheduler\<close>: the counter \<^verbatim>\<open>uv_ref_count\<close> (an
  \<^verbatim>\<open>unsigned int\<close>), the \<^verbatim>\<open>data\<close> field of \<^verbatim>\<open>root_async\<close> (the environment the
  pending wake is for), the libuv calls made on \<^verbatim>\<open>root_async\<close>, and the work handed to
  \<^verbatim>\<open>thread_pool.exec\<close> (affinity and environment), both in call order.
\<close>

datatype uv_call = uv_ref | uv_unref | uv_async_send

record Statics =
  uv_ref_count :: "32 word"
  root_async_data :: "nat option"
  root_async_calls :: "uv_call list"
  thread_pool :: "(nat \<times> nat) list"

text \<open>\<^verbatim>\<open>IncrementUvRef\<close>; \<open>on_default\<close> says whether the calling thread is the default thread.\<close>

definition IncrementUvRef :: "bool \<Rightarrow> Statics \<Rightarrow> Statics result" where
  "IncrementUvRef on_default st =
     (let st1 = st\<lparr>uv_ref_count := uv_ref_count st + 1\<rparr>
      in if uv_ref_count st1 = 1
         then (if on_default
               then Ok (st1\<lparr>root_async_calls := root_async_calls st1 @ [uv_ref]\<rparr>)
               else Aborted ''std::this_thread::get_id() == Executor::default_thread'')
         else Ok st1)"

definition DecrementUvRef :: "bool \<Rightarrow> Statics \<Rightarrow> Statics" where
  "DecrementUvRef on_default st =
     (let st1 = st\<lparr>uv_ref_count := uv_ref_count st - 1\<rparr>
      in if uv_ref_count st1 = 0
         then (if on_default
               then st1\<lparr>root_async_calls := root_async_calls st1 @ [uv_unref]\<rparr>
               else st1\<lparr>root_async_calls := root_async_calls st1 @ [uv_async_send]\<rparr>)
         else st1)"

subsection \<open>The methods of \<^verbatim>\<open>Scheduler::Lock\<close>\<close>

definition DoneRunning :: "'r Scheduler \<Rightarrow> 'r Scheduler result" where
  "DoneRunning s =
     (if status s = Running then Ok (s\<lparr>status := Waiting\<rparr>)
      else Aborted ''scheduler.status == Status::Running'')"

definition PushTask :: "'r \<Rightarrow> 'r Scheduler \<Rightarrow> 'r Scheduler" where
  "PushTask task s = s\<lparr>tasks := tasks s @ [task]\<rparr>"

definition PushHandleTask :: "'r \<Rightarrow> 'r Scheduler \<Rightarrow> 'r Scheduler" where
  "PushHandleTask handle_task s = s\<lparr>handle_tasks := handle_tasks s @ [handle_task]\<rparr>"

definition PushInterrupt :: "'r \<Rightarrow> 'r Scheduler \<Rightarrow> 'r Scheduler" where
  "PushInterrupt interrupt s = s\<lparr>interrupts := interrupts s @ [interrupt]\<rparr>"

definition PushSyncInterrupt :: "'r \<Rightarrow> 'r Scheduler \<Rightarrow> 'r Scheduler" where
  "PushSyncInterrupt interrupt s = s\<lparr>sync_interrupts := sync_interrupts s @ [interrupt]\<rparr>"

definition TakeTasks :: "'r Scheduler \<Rightarrow> 'r list \<times> 'r Scheduler" where
  "TakeTasks s = (tasks s, s\<lparr>tasks := []\<rparr>)"

definition TakeHandleTasks :: "'r Scheduler \<Rightarrow> 'r list \<times> 'r Scheduler" where
  "TakeHandleTasks s = (handle_tasks s, s\<lparr>handle_tasks := []\<rparr>)"

definition TakeInterrupts :: "'r Scheduler \<Rightarrow> 'r list \<times> 'r Scheduler" where
  "TakeInterrupts s = (interrupts s, s\<lparr>interrupts := []\<rparr>)"

definition TakeSyncInterrupts :: "'r Scheduler \<Rightarrow> 'r list \<times> 'r Scheduler" where
  "TakeSyncInterrupts s = (sync_interrupts s, s\<lparr>sync_interrupts := []\<rparr>)"

text \<open>
  \<^verbatim>\<open>WakeIsolate(isolate_ptr)\<close>: \<open>isolate_root\<close> is \<^verbatim>\<open>isolate_ptr->root\<close> and \<open>isolate_ptr\<close>
  the environment the shared pointer refers to.
\<close>

definition WakeIsolate ::
  "bool \<Rightarrow> bool \<Rightarrow> nat \<Rightarrow> Statics \<times> 'r Scheduler \<Rightarrow> (bool \<times> Statics \<times> 'r Scheduler) result" where
  "WakeIsolate on_default isolate_root isolate_ptr x =
     (case x of (st, s) \<Rightarrow>
        if status s = Waiting then
          (let s1 = s\<lparr>status := Running\<rparr>
           in case IncrementUvRef on_default st of
                Ok st1 \<Rightarrow>
                  if isolate_root then
                    (if root_async_data st1 = None
                     then Ok (True,
                              st1\<lparr>root_async_data := Some isolate_ptr,
                                  root_async_calls := root_async_calls st1 @ [uv_async_send]\<rparr>,
                              s1)
                     else Aborted ''root_async.data == nullptr'')
                  else Ok (True,
                           st1\<lparr>thread_pool := thread_pool st1 @ [(thread_affinity s1, isolate_ptr)]\<rparr>,
                           s1)
              | Threw e st1 \<Rightarrow> Threw e (False, st1, s1)
              | Aborted a \<Rightarrow> Aborted a
              | Undefined u \<Rightarrow> Undefined u)
        else Ok (False, st, s))"

definition InterruptIsolate ::
  "(engine_call \<Rightarrow> Isolate \<Rightarrow> HeapStatistics) \<Rightarrow> 'r Scheduler \<Rightarrow> Isolate \<Rightarrow> Isolate result" where
  "InterruptIsolate engine s vm =
     (if status s = Running then Ok (v8 engine (RequestInterrupt AsyncCallbackInterrupt) vm)
      else Aborted ''scheduler.status == Status::Running'')"

definition InterruptSyncIsolate ::
  "(engine_call \<Rightarrow> Isolate \<Rightarrow> HeapStatistics) \<Rightarrow> Isolate \<Rightarrow> Isolate" where
  "InterruptSyncIsolate engine vm = v8 engine (RequestInterrupt SyncCallbackInterrupt) vm"

text \<open>
  Every method of \<^verbatim>\<open>Scheduler::Lock\<close>, as one call on the statics, the scheduler and
  the isolate. The queue a \<open>Take\<close> returns goes to the caller and is not part of the
  state.
\<close>

datatype 'r lock_method =
    CallDoneRunning
  | CallPushTask 'r
  | CallPushHandleTask 'r
  | CallPushInterrupt 'r
  | CallPushSyncInterrupt 'r
  | CallTakeTasks
  | CallTakeHandleTasks
  | CallTakeInterrupts
  | CallTakeSyncInterrupts
  | CallWakeIsolate bool bool nat
  | CallInterruptIsolate
  | CallInterruptSyncIsolate

fun call_lock ::
  "(engine_call \<Rightarrow> Isolate \<Rightarrow> HeapStatistics) \<Rightarrow> 'r lock_method \<Rightarrow>
   Statics \<times> 'r Scheduler \<times> Isolate \<Rightarrow> (Statics \<times> 'r Scheduler \<times> Isolate) result" where
  "call_lock engine CallDoneRunning (st, s, vm) =
     (case DoneRunning s of Ok s1 \<Rightarrow> Ok (st, s1, vm) | Threw e s1 \<Rightarrow> Threw e (st, s1, vm)
      | Aborted a \<Rightarrow> Aborted a | Undefined u \<Rightarrow> Undefined u)"
| "call_lock engine (CallPushTask r) (st, s, vm) = Ok (st, PushTask r s, vm)"
| "call_lock engine (CallPushHandleTask r) (st, s, vm) = Ok (st, PushHandleTask r s, vm)"
| "call_lock engine (CallPushInterrupt r) (st, s, vm) = Ok (st, PushInterrupt r s, vm)"
| "call_lock engine (CallPushSyncInterrupt r) (st, s, vm) = Ok (st, PushSyncInterrupt r s, vm)"
| "call_lock engine CallTakeTasks (st, s, vm) = Ok (st, snd (TakeTasks s), vm)"
| "call_lock engine CallTakeHandleTasks (st, s, vm) = Ok (st, snd (TakeHandleTasks s), vm)"
| "call_lock engine CallTakeInterrupts (st, s, vm) = Ok (st, snd (TakeInterrupts s), vm)"
| "call_lock engine CallTakeSyncInterrupts (st, s, vm) = Ok (st, snd (TakeSyncInterrupts s), vm)"
| "call_lock engine (CallWakeIsolate on_default isolate_root isolate_ptr) (st, s, vm) =
     (case WakeIsolate on_default isolate_root isolate_ptr (st, s) of
        Ok (b, st1, s1) \<Rightarrow> Ok (st1, s1, vm)
      | Threw e (b, st1, s1) \<Rightarrow> Threw e (st1, s1, vm)
      | Aborted a \<Rightarrow> Aborted a | Undefined u \<Rightarrow> Undefined u)"
| "call_lock engine CallInterruptIsolate (st, s, vm) =
     (case InterruptIsolate engine s vm of Ok vm1 \<Rightarrow> Ok (st, s, vm1)
      | Threw e vm1 \<Rightarrow> Threw e (st, s, vm1)
      | Aborted a \<Rightarrow> Aborted a | Undefined u \<Rightarrow> Undefined u)"
| "call_lock engine CallInterruptSyncIsolate (st, s, vm) = Ok (st, s, InterruptSyncIsolate engine vm)"

section \<open>IsolateEnvironment\<close>

text \<open>
  \<^verbatim>\<open>IsolateHolder\<close> and \<^verbatim>\<open>InspectorAgent\<close> are declared in other files. The model keeps
  the holder's reference to the environment (\<^verbatim>\<open>holder->isolate\<close>, reset by
  \<^verbatim>\<open>Terminate\<close>) and whether the agent's \<^verbatim>\<open>Terminate()\<close> has been called.
\<close>

record IsolateHolder =
  holder_isolate :: "nat option"

record InspectorAgent =
  terminate_requested :: bool

text \<open>
  The members of \<^verbatim>\<open>IsolateEnvironment\<close> this file reads or writes. \<open>this_ptr\<close> is the
  address of the object. \<open>weak_persistents\<close> lists the table in the order the container
  iterates it, one pair per handle: handle, then function and parameter.
\<close>

record 'r IsolateEnvironment =
  this_ptr :: nat
  isolate :: Isolate
  scheduler :: "'r Scheduler"
  holder :: IsolateHolder
  inspector_agent :: "InspectorAgent option"
  weak_persistents :: "(nat \<times> nat \<times> nat) list"
  memory_limit :: size_t
  misc_memory_size :: size_t
  extra_allocated_memory :: size_t
  initial_heap_size_limit :: size_t
  memory_pressure :: MemoryPressureLevel
  hit_memory_limit :: bool
  did_adjust_heap_limit :: bool
  root :: bool
  terminated :: bool

definition Terminate ::
  "(engine_call \<Rightarrow> Isolate \<Rightarrow> HeapStatistics) \<Rightarrow> 'r IsolateEnvironment \<Rightarrow>
   'r IsolateEnvironment result" where
  "Terminate engine e =
     (if root e then Aborted ''!root''
      else
        let e1 = e\<lparr>terminated := True\<rparr>;
            e2 = (case inspector_agent e1 of
                    None \<Rightarrow> e1
                  | Some agent \<Rightarrow> e1\<lparr>inspector_agent := Some (agent\<lparr>terminate_requested := True\<rparr>)\<rparr>);
            e3 = e2\<lparr>isolate := v8 engine TerminateExecution (isolate e2)\<rparr>
        in Ok (e3\<lparr>holder := (holder e3)\<lparr>holder_isolate := None\<rparr>\<rparr>))"

subsection \<open>HeapCheck\<close>

record HeapCheck =
  extra_size_before :: size_t
  force :: bool

definition HeapCheck :: "'r IsolateEnvironment \<Rightarrow> bool \<Rightarrow> HeapCheck" where
  "HeapCheck env force' = \<lparr>extra_size_before = extra_allocated_memory env, force = force'\<rparr>"

definition Epilogue ::
  "(engine_call \<Rightarrow> Isolate \<Rightarrow> HeapStatistics) \<Rightarrow> HeapCheck \<Rightarrow> 'r IsolateEnvironment \<Rightarrow>
   'r IsolateEnvironment result" where
  "Epilogue engine hc env =
     (if \<not> root env \<and> (force hc \<or> extra_allocated_memory env \<noteq> extra_size_before hc) then
        (if used_heap_size (heap (isolate env)) + extra_allocated_memory env > memory_limit env then
           (let env1 = env\<lparr>isolate := v8 engine LowMemoryNotification (isolate env)\<rparr>
            in if used_heap_size (heap (isolate env1)) + extra_allocated_memory env1 > memory_limit env1
               then (case Terminate engine (env1\<lparr>hit_memory_limit := True\<rparr>) of
                       Ok env2 \<Rightarrow>
                         Threw (js_fatal_error
                           ''Isolate was disposed during execution due to memory limit'') env2
                     | Threw err env2 \<Rightarrow> Threw err env2
                     | Aborted a \<Rightarrow> Aborted a
                     | Undefined u \<Rightarrow> Undefined u)
               else Ok env1)
         else Ok env)
      else Ok env)"

subsection \<open>Garbage collection callbacks and memory pressure\<close>

text \<open>
  \<^verbatim>\<open>GCCallbackFlags\<close> is an enumeration of v8 used as a bit set; the two flags this file
  tests have the values of v8's header.
\<close>

definition kGCCallbackFlagForced :: "32 word" where
  "kGCCallbackFlagForced = 4"

definition kGCCallbackFlagCollectAllAvailableGarbage :: "32 word" where
  "kGCCallbackFlagCollectAllAvailableGarbage = 16"

text \<open>
  \<open>at_least\<close> is the value of the macro \<^verbatim>\<open>V8_AT_LEAST(6, 9, 406)\<close>. The calls of
  \<^verbatim>\<open>RequestMemoryPressureNotification\<close> with two arguments take the third,
  \<^verbatim>\<open>as_interrupt\<close>, from the declaration in \<^verbatim>\<open>environment.h\<close>: the parameter
  \<open>dflt\<close>.
\<close>

function MarkSweepCompactEpilogue ::
    "(engine_call \<Rightarrow> Isolate \<Rightarrow> HeapStatistics) \<Rightarrow> bool \<Rightarrow> bool \<Rightarrow> 32 word \<Rightarrow>
     'r IsolateEnvironment \<Rightarrow> 'r IsolateEnvironment result"
  and RequestMemoryPressureNotification ::
    "(engine_call \<Rightarrow> Isolate \<Rightarrow> HeapStatistics) \<Rightarrow> bool \<Rightarrow> bool \<Rightarrow> MemoryPressureLevel \<Rightarrow>
     bool \<Rightarrow> bool \<Rightarrow> 'r IsolateEnvironment \<Rightarrow> 'r IsolateEnvironment result"
where
  "MarkSweepCompactEpilogue engine at_least dflt gc_flags that =
     (let total_memory = used_heap_size (heap (isolate that)) + extra_allocated_memory that;
          memory_limit' = memory_limit that + misc_memory_size that
      in if total_memory > memory_limit' then
           (if gc_flags AND (kGCCallbackFlagCollectAllAvailableGarbage OR kGCCallbackFlagForced) \<noteq> 0
            then (case Terminate engine that of
                    Ok that1 \<Rightarrow> Ok (that1\<lparr>hit_memory_limit := True\<rparr>)
                  | Threw err that1 \<Rightarrow> Threw err that1
                  | Aborted a \<Rightarrow> Aborted a
                  | Undefined u \<Rightarrow> Undefined u)
            else RequestMemoryPressureNotification engine at_least dflt kCritical True dflt that)
         else if gc_flags AND kGCCallbackFlagCollectAllAvailableGarbage = 0 then
           (let that1 =
                  (if did_adjust_heap_limit that then
                     (let vm1 = v8 engine (RemoveNearHeapLimitCallback (memory_limit that)) (isolate that);
                          vm2 = v8 engine AddNearHeapLimitCallback vm1;
                          that' = that\<lparr>isolate := vm2\<rparr>
                      in if heap_size_limit (heap vm2) = initial_heap_size_limit that'
                         then that'\<lparr>did_adjust_heap_limit := False\<rparr>
                         else that')
                   else that)
            in if total_memory + total_memory div 4 > memory_limit'
               then RequestMemoryPressureNotification engine at_least dflt kModerate True dflt that1
               else Ok that1)
         else Ok that)"
| "RequestMemoryPressureNotification engine at_least dflt memory_pressure' is_reentrant_gc as_interrupt env =
     (if (\<not> at_least \<and> is_reentrant_gc) \<or> as_interrupt then
        Ok (env\<lparr>memory_pressure := memory_pressure',
                 isolate := v8 engine (RequestInterrupt MemoryPressureInterrupt) (isolate env)\<rparr>)
      else
        (let env1 = env\<lparr>memory_pressure := kNone,
                         isolate := v8 engine (MemoryPressureNotification memory_pressure') (isolate env)\<rparr>
         in if is_reentrant_gc \<and> memory_pressure' = kCritical
            then MarkSweepCompactEpilogue engine at_least dflt kGCCallbackFlagForced env1
            else Ok env1))"
  by pat_completeness auto
termination
  by (relation "measure (\<lambda>x. case x of
        Inl (engine, at_least, dflt, gc_flags, that) \<Rightarrow>
          (if gc_flags AND (kGCCallbackFlagCollectAllAvailableGarbage OR kGCCallbackFlagForced) = 0
           then 3 else 1)
      | Inr (engine, at_least, dflt, level, is_reentrant_gc, as_interrupt, env) \<Rightarrow>
          (if level = kCritical then 2 else 0))")
     (auto simp: kGCCallbackFlagCollectAllAvailableGarbage_def kGCCallbackFlagForced_def)

declare MarkSweepCompactEpilogue.simps [simp del]

declare RequestMemoryPressureNotification.simps [simp del]

definition NearHeapLimitCallback ::
  "(engine_call \<Rightarrow> Isolate \<Rightarrow> HeapStatistics) \<Rightarrow> bool \<Rightarrow> bool \<Rightarrow> size_t \<Rightarrow>
   'r IsolateEnvironment \<Rightarrow> (size_t \<times> 'r IsolateEnvironment) result" where
  "NearHeapLimitCallback engine at_least dflt current_heap_limit that =
     (let that1 = that\<lparr>did_adjust_heap_limit := True\<rparr>;
          r = (if used_heap_size (heap (isolate that1)) + extra_allocated_memory that1
                    > memory_limit that1 + misc_memory_size that1
               then RequestMemoryPressureNotification engine at_least dflt kCritical True True that1
               else RequestMemoryPressureNotification engine at_least dflt kModerate True True that1)
      in case r of
           Ok that2 \<Rightarrow> Ok (current_heap_limit + 1024 * 1024 * 1024, that2)
         | Threw err that2 \<Rightarrow> Threw err (current_heap_limit, that2)
         | Aborted a \<Rightarrow> Aborted a
         | Undefined u \<Rightarrow> Undefined u)"

definition CheckMemoryPressure ::
  "(engine_call \<Rightarrow> Isolate \<Rightarrow> HeapStatistics) \<Rightarrow> 'r IsolateEnvironment \<Rightarrow> 'r IsolateEnvironment" where
  "CheckMemoryPressure engine env =
     (let pressure = memory_pressure env
      in if pressure \<noteq> kNone
         then env\<lparr>memory_pressure := kNone,
                  isolate := v8 engine (MemoryPressureNotification pressure) (isolate env)\<rparr>
         else env)"

subsection \<open>Weak callbacks\<close>

definition AddWeakCallback ::
  "nat \<Rightarrow> nat \<Rightarrow> nat \<Rightarrow> 'r IsolateEnvironment \<Rightarrow> 'r IsolateEnvironment result" where
  "AddWeakCallback handle fn param env =
     (if root env then Ok env
      else case map_of (weak_persistents env) handle of
             Some it \<Rightarrow> Threw (logic_error ''Weak callback already added'') env
           | None \<Rightarrow> Ok (env\<lparr>weak_persistents := weak_persistents env @ [(handle, fn, param)]\<rparr>))"

definition RemoveWeakCallback :: "nat \<Rightarrow> 'r IsolateEnvironment \<Rightarrow> 'r IsolateEnvironment result" where
  "RemoveWeakCallback handle env =
     (if root env then Ok env
      else case map_of (weak_persistents env) handle of
             None \<Rightarrow> Threw (logic_error ''Weak callback doesn't exist'') env
           | Some it \<Rightarrow>
               Ok (env\<lparr>weak_persistents := filter (\<lambda>p. fst p \<noteq> handle) (weak_persistents env)\<rparr>))"

subsection \<open>The bookkeeping registry\<close>

text \<open>
  \<^verbatim>\<open>isolate_map\<close> maps the address of an engine instance to the address of its
  environment; \<open>envs\<close> is the memory the environment pointers refer to.
\<close>

record BookkeepingStatics =
  isolate_map :: "nat \<rightharpoonup> nat"

definition LookupIsolate ::
  "BookkeepingStatics \<Rightarrow> (nat \<rightharpoonup> 'r IsolateEnvironment) \<Rightarrow> nat \<Rightarrow> IsolateHolder option result" where
  "LookupIsolate bookkeeping_statics_shared envs isolate' =
     (case isolate_map bookkeeping_statics_shared isolate' of
        None \<Rightarrow> Ok None
      | Some it \<Rightarrow>
          (case envs it of
             None \<Rightarrow> Undefined ''it->second''
           | Some env \<Rightarrow> Ok (Some (holder env))))"

section \<open>Executor\<close>





section \<open>Running the queues\<close>

text \<open>
  A \<^verbatim>\<open>Runnable\<close> is code of the caller. \<open>Run r\<close> is what running \<open>r\<close> does to the
  environment it runs in: it may push work, set \<open>hit_memory_limit\<close>, request memory
  pressure. A queue that has been taken is local to the pass, so \<open>Run\<close> cannot reach it.
\<close>

fun run_queue :: "('r \<Rightarrow> 'e \<Rightarrow> 'e) \<Rightarrow> 'r list \<Rightarrow> 'e \<Rightarrow> 'e" where
  "run_queue Run [] env = env"
| "run_queue Run (front # queue) env = run_queue Run queue (Run front env)"

text \<open>The loop over \<open>tasks\<close>; the flag says that it left through \<^verbatim>\<open>return\<close>.\<close>

fun run_tasks ::
  "('r \<Rightarrow> 'r IsolateEnvironment \<Rightarrow> 'r IsolateEnvironment) \<Rightarrow>
   (engine_call \<Rightarrow> Isolate \<Rightarrow> HeapStatistics) \<Rightarrow> 'r list \<Rightarrow> 'r IsolateEnvironment \<Rightarrow>
   bool \<times> 'r IsolateEnvironment" where
  "run_tasks Run engine [] env = (False, env)"
| "run_tasks Run engine (front # queue) env =
     (let env1 = Run front env
      in if hit_memory_limit env1 then (True, env1)
         else run_tasks Run engine queue (CheckMemoryPressure engine env1))"




text \<open>\<^verbatim>\<open>InterruptEntry<Take>\<close>, with the method \<open>Take\<close> it is instantiated at.\<close>

partial_function (option) InterruptEntry ::
  "('r \<Rightarrow> 'r IsolateEnvironment \<Rightarrow> 'r IsolateEnvironment) \<Rightarrow>
   ('r Scheduler \<Rightarrow> 'r list \<times> 'r Scheduler) \<Rightarrow> 'r IsolateEnvironment \<Rightarrow>
   'r IsolateEnvironment option" where
  "InterruptEntry Run Take env =
     (let interrupts' = fst (Take (scheduler env));
          s1 = snd (Take (scheduler env))
      in if interrupts' = [] then Some (env\<lparr>scheduler := s1\<rparr>)
         else InterruptEntry Run Take (run_queue Run interrupts' (env\<lparr>scheduler := s1\<rparr>)))"

declare InterruptEntry.simps [code]

text \<open>
  \<^verbatim>\<open>Scheduler::AsyncCallbackInterrupt\<close> and \<^verbatim>\<open>Scheduler::SyncCallbackInterrupt\<close>, the
  callbacks \<^verbatim>\<open>InterruptIsolate\<close> and \<^verbatim>\<open>InterruptSyncIsolate\<close> hand to the engine.
\<close>

definition Scheduler_AsyncCallbackInterrupt ::
  "('r \<Rightarrow> 'r IsolateEnvironment \<Rightarrow> 'r IsolateEnvironment) \<Rightarrow> 'r IsolateEnvironment \<Rightarrow>
   'r IsolateEnvironment option" where
  "Scheduler_AsyncCallbackInterrupt Run env = InterruptEntry Run TakeInterrupts env"


section \<open>Destruction\<close>






section \<open>AsyncWait\<close>

text \<open>
  The two flags of an \<^verbatim>\<open>AsyncWait\<close>. \<^verbatim>\<open>Ready\<close>, \<^verbatim>\<open>Wake\<close> and \<^verbatim>\<open>Wait\<close> hold the scheduler's
  \<^verbatim>\<open>wait_mutex\<close> for all they do, except that \<^verbatim>\<open>wait_cv.wait\<close> releases it while the
  thread is parked and takes it again before it returns. So the object changes in steps
  that do not overlap: a call of \<^verbatim>\<open>Ready\<close>, a call of \<^verbatim>\<open>Wake\<close>, the entry of a thread
  into \<^verbatim>\<open>Wait\<close> up to its first \<^verbatim>\<open>wait_cv.wait\<close>, and each return of that thread from
  \<^verbatim>\<open>wait_cv.wait\<close> up to the next. The state of \<^verbatim>\<open>wait_cv\<close> is where that thread is:
  not in \<^verbatim>\<open>Wait\<close> yet, parked, woken by \<^verbatim>\<open>notify_one\<close> and about to take the mutex, or
  back from \<^verbatim>\<open>Wait\<close>. A parked thread may also return from \<^verbatim>\<open>wait_cv.wait\<close> without a
  notification. \<open>notify_calls\<close> counts the calls of \<^verbatim>\<open>notify_one\<close>.
\<close>

record AsyncWait =
  ready :: bool
  done' :: bool

datatype waiter = Outside | Parked | Notified | Returned

record WaitState =
  async_wait :: AsyncWait
  wait_cv :: waiter
  notify_calls :: nat

definition notify_one :: "WaitState \<Rightarrow> WaitState" where
  "notify_one w = w\<lparr>wait_cv := (if wait_cv w = Parked then Notified else wait_cv w),
                    notify_calls := notify_calls w + 1\<rparr>"

definition Ready :: "WaitState \<Rightarrow> WaitState" where
  "Ready w =
     (let w1 = w\<lparr>async_wait := (async_wait w)\<lparr>ready := True\<rparr>\<rparr>
      in if done' (async_wait w1) then notify_one w1 else w1)"

definition Wake :: "WaitState \<Rightarrow> WaitState" where
  "Wake w =
     (let w1 = w\<lparr>async_wait := (async_wait w)\<lparr>done' := True\<rparr>\<rparr>
      in if ready (async_wait w1) then notify_one w1 else w1)"

text \<open>One test of the condition of the \<^verbatim>\<open>while\<close> in \<^verbatim>\<open>Wait\<close>: park again, or leave.\<close>

definition Wait_test :: "WaitState \<Rightarrow> WaitState" where
  "Wait_test w =
     (if \<not> ready (async_wait w) \<or> \<not> done' (async_wait w)
      then w\<lparr>wait_cv := Parked\<rparr> else w\<lparr>wait_cv := Returned\<rparr>)"

datatype wait_event = CallReady | CallWake | CallWait | Resume

fun wait_step :: "wait_event \<Rightarrow> WaitState \<Rightarrow> WaitState" where
  "wait_step CallReady w = Ready w"
| "wait_step CallWake w = Wake w"
| "wait_step CallWait w = (if wait_cv w = Outside then Wait_test w else w)"
| "wait_step Resume w = (if wait_cv w = Parked \<or> wait_cv w = Notified then Wait_test w else w)"

section \<open>Notions the statements use\<close>

text \<open>The state an outcome carries: a call that returned or threw leaves one, an abort none.\<close>

fun final_state :: "'a result \<Rightarrow> 'a option" where
  "final_state (Ok x) = Some x"
| "final_state (Threw err x) = Some x"
| "final_state (Aborted a) = None"
| "final_state (Undefined u) = None"




text \<open>
  What holds of the waiting thread and the flags after any steps from a state in which no
  thread has entered \<^verbatim>\<open>Wait\<close> and nothing has been notified.
\<close>

definition rendezvous :: "WaitState \<Rightarrow> bool" where
  "rendezvous w \<longleftrightarrow>
     (wait_cv w = Returned \<longrightarrow> ready (async_wait w) \<and> done' (async_wait w)) \<and>
     (wait_cv w = Notified \<longrightarrow> ready (async_wait w) \<and> done' (async_wait w)) \<and>
     (wait_cv w = Parked \<longrightarrow> \<not> (ready (async_wait w) \<and> done' (async_wait w))) \<and>
     (0 < notify_calls w \<longrightarrow> ready (async_wait w) \<and> done' (async_wait w))"

section \<open>Example states\<close>

text \<open>Concrete schedulers, statics, engines and environments, for evaluating the model.\<close>

definition idle :: "nat Scheduler" where
  "idle = \<lparr>status = Waiting, tasks = [], handle_tasks = [], interrupts = [],
           sync_interrupts = [], thread_affinity = 3\<rparr>"

definition quiet :: Statics where
  "quiet = \<lparr>uv_ref_count = 0, root_async_data = None, root_async_calls = [], thread_pool = []\<rparr>"

definition steady :: "engine_call \<Rightarrow> Isolate \<Rightarrow> HeapStatistics" where
  "steady c vm = heap vm"

definition collecting :: "engine_call \<Rightarrow> Isolate \<Rightarrow> HeapStatistics" where
  "collecting c vm =
     (case c of
        LowMemoryNotification \<Rightarrow> (heap vm)\<lparr>used_heap_size := used_heap_size (heap vm) div 2\<rparr>
      | RemoveNearHeapLimitCallback l \<Rightarrow> (heap vm)\<lparr>heap_size_limit := 200\<rparr>
      | _ \<Rightarrow> heap vm)"

definition sandbox :: "nat IsolateEnvironment" where
  "sandbox =
     \<lparr>this_ptr = 10,
      isolate = \<lparr>address = 100, heap = \<lparr>used_heap_size = 50, heap_size_limit = 200\<rparr>, calls = []\<rparr>,
      scheduler = idle,
      holder = \<lparr>holder_isolate = Some 10\<rparr>,
      inspector_agent = Some \<lparr>terminate_requested = False\<rparr>,
      weak_persistents = [],
      memory_limit = 100,
      misc_memory_size = 100,
      extra_allocated_memory = 0,
      initial_heap_size_limit = 200,
      memory_pressure = kNone,
      hit_memory_limit = False,
      did_adjust_heap_limit = False,
      root = False,
      terminated = False\<rparr>"

definition loaded :: "nat IsolateEnvironment" where
  "loaded = sandbox\<lparr>isolate := \<lparr>address = 100, heap = \<lparr>used_heap_size = 180, heap_size_limit = 1000\<rparr>, calls = []\<rparr>,
                    did_adjust_heap_limit := True\<rparr>"

text \<open>
  The sandbox after the engine has called \<^verbatim>\<open>NearHeapLimitCallback\<close> twice and raised its
  heap limit to what the callback returned.
\<close>

definition granted :: "nat IsolateEnvironment" where
  "granted =
     (case NearHeapLimitCallback steady True False 200 sandbox of
        Ok (limit1, env1) \<Rightarrow>
          (case NearHeapLimitCallback steady True False limit1 env1 of
             Ok (limit2, env2) \<Rightarrow> env2\<lparr>isolate := (isolate env2)\<lparr>heap := (heap (isolate env2))\<lparr>heap_size_limit := limit2\<rparr>\<rparr>\<rparr>
           | _ \<Rightarrow> sandbox)
      | _ \<Rightarrow> sandbox)"









text \<open>An \<^verbatim>\<open>AsyncWait\<close> that has just been made, with no thread in \<^verbatim>\<open>Wait\<close>.\<close>

definition fresh :: WaitState where
  "fresh = \<lparr>async_wait = \<lparr>ready = False, done' = False\<rparr>, wait_cv = Outside, notify_calls = 0\<rparr>"

section \<open>Properties\<close>

subsection \<open>The execution pass\<close>



lemma run_tasks_through:
  "\<not> fst (run_tasks Run engine queue env) \<Longrightarrow>
   run_tasks Run engine queue env =
     (False, fold (\<lambda>task e. CheckMemoryPressure engine (Run task e)) queue env)"
  by (induction queue arbitrary: env) (auto simp: Let_def split: if_splits)

lemma run_tasks_stop:
  "\<not> fst (run_tasks Run engine pre env) \<Longrightarrow>
   hit_memory_limit (Run task (snd (run_tasks Run engine pre env))) \<Longrightarrow>
   run_tasks Run engine (pre @ task # post) env =
     (True, Run task (snd (run_tasks Run engine pre env)))"
  by (induction pre arbitrary: env) (auto simp: Let_def split: if_splits)


















subsection \<open>WakeIsolate\<close>

text \<open>
  C2, as stated: in every state, \<^verbatim>\<open>WakeIsolate\<close> on a Waiting scheduler returns true
  and dispatches one wake. It does not on a thread other than the default thread when
  \<^verbatim>\<open>uv_ref_count\<close> is 0: the assertion of \<^verbatim>\<open>IncrementUvRef\<close> fails.
\<close>

theorem WakeIsolate_counterexample:
  "status idle = Waiting \<and>
   WakeIsolate False False 10 (quiet, idle) =
     Aborted ''std::this_thread::get_id() == Executor::default_thread''"
  by (simp add: WakeIsolate_def IncrementUvRef_def Let_def idle_def quiet_def)

text \<open>
  C2, amended. On a Running scheduler \<^verbatim>\<open>WakeIsolate\<close> returns false and changes nothing.
  On a Waiting one, when the two assertions hold (the count does not become 1 on a thread
  other than the default thread; for a root environment \<^verbatim>\<open>root_async.data\<close> is null),
  it returns true, the status is Running, \<^verbatim>\<open>uv_ref_count\<close> is one more (modulo \<open>2^32\<close>)
  and exactly one wake is dispatched: for a root environment \<^verbatim>\<open>root_async.data\<close> is set to
  it and one \<^verbatim>\<open>uv_async_send\<close> is made, with nothing given to the pool; otherwise one
  \<^verbatim>\<open>thread_pool.exec\<close> with the scheduler's affinity, with \<^verbatim>\<open>root_async.data\<close> untouched
  and no send. (\<^verbatim>\<open>uv_ref\<close> comes first when the count became 1.) When an assertion does not
  hold, the call aborts.
\<close>

theorem WakeIsolate_dispatch:
  "(status s = Running \<longrightarrow> WakeIsolate on_default isolate_root p (st, s) = Ok (False, st, s)) \<and>
   (status s = Waiting \<and> (uv_ref_count st + 1 = 1 \<longrightarrow> on_default) \<and>
      (isolate_root \<longrightarrow> root_async_data st = None) \<longrightarrow>
      (\<exists>st'. WakeIsolate on_default isolate_root p (st, s) = Ok (True, st', s\<lparr>status := Running\<rparr>) \<and>
         uv_ref_count st' = uv_ref_count st + 1 \<and>
         (if isolate_root
          then root_async_data st' = Some p \<and> thread_pool st' = thread_pool st \<and>
               root_async_calls st' =
                 root_async_calls st @ (if uv_ref_count st + 1 = 1 then [uv_ref] else []) @ [uv_async_send]
          else root_async_data st' = root_async_data st \<and>
               thread_pool st' = thread_pool st @ [(thread_affinity s, p)] \<and>
               root_async_calls st' =
                 root_async_calls st @ (if uv_ref_count st + 1 = 1 then [uv_ref] else [])))) \<and>
   (status s = Waiting \<and> uv_ref_count st + 1 = 1 \<and> \<not> on_default \<longrightarrow>
      WakeIsolate on_default isolate_root p (st, s) =
        Aborted ''std::this_thread::get_id() == Executor::default_thread'') \<and>
   (status s = Waiting \<and> (uv_ref_count st + 1 = 1 \<longrightarrow> on_default) \<and>
      isolate_root \<and> root_async_data st \<noteq> None \<longrightarrow>
      WakeIsolate on_default isolate_root p (st, s) = Aborted ''root_async.data == nullptr'')"
  by (auto simp: WakeIsolate_def IncrementUvRef_def Let_def)

theorem WakeIsolate_dispatch_witness:
  "WakeIsolate True False 10 (quiet, idle\<lparr>status := Running\<rparr>) = Ok (False, quiet, idle\<lparr>status := Running\<rparr>) \<and>
   (\<exists>st'. WakeIsolate True False 10 (quiet, idle) = Ok (True, st', idle\<lparr>status := Running\<rparr>) \<and>
      uv_ref_count st' = 1 \<and> root_async_data st' = None \<and> thread_pool st' = [(3, 10)] \<and>
      root_async_calls st' = [uv_ref]) \<and>
   (\<exists>st'. WakeIsolate False True 10 (quiet\<lparr>uv_ref_count := 1\<rparr>, idle) =
        Ok (True, st', idle\<lparr>status := Running\<rparr>) \<and>
      uv_ref_count st' = 2 \<and> root_async_data st' = Some 10 \<and> thread_pool st' = [] \<and>
      root_async_calls st' = [uv_async_send]) \<and>
   WakeIsolate True True 10 (quiet\<lparr>uv_ref_count := 1, root_async_data := Some 10\<rparr>, idle) =
     Aborted ''root_async.data == nullptr''"
  using WakeIsolate_dispatch [of "idle\<lparr>status := Running\<rparr>" True False 10 quiet]
    WakeIsolate_dispatch [of idle True False 10 quiet]
    WakeIsolate_dispatch [of idle False True 10 "quiet\<lparr>uv_ref_count := 1\<rparr>"]
    WakeIsolate_dispatch [of idle True True 10 "quiet\<lparr>uv_ref_count := 1, root_async_data := Some 10\<rparr>"]
  by (auto simp: idle_def quiet_def)

subsection \<open>Status\<close>

text \<open>
  C4. Of all the methods of \<^verbatim>\<open>Scheduler::Lock\<close>, only \<^verbatim>\<open>WakeIsolate\<close> changes the status
  of a scheduler from Waiting to Running and only \<^verbatim>\<open>DoneRunning\<close> changes it from Running
  to Waiting; there is no other change of status. \<^verbatim>\<open>DoneRunning\<close> on a Running scheduler
  sets it Waiting; on a scheduler that is not Running its assertion fails and the process
  aborts: it is not a silent no-op.
\<close>

theorem Status_transitions:
  "(final_state (call_lock engine m (st, s, vm)) = Some (st', s', vm') \<and> status s' \<noteq> status s \<longrightarrow>
      (status s = Waiting \<and> status s' = Running \<and> (\<exists>d r p. m = CallWakeIsolate d r p)) \<or>
      (status s = Running \<and> status s' = Waiting \<and> m = CallDoneRunning)) \<and>
   (status s = Running \<longrightarrow> DoneRunning s = Ok (s\<lparr>status := Waiting\<rparr>)) \<and>
   (status s \<noteq> Running \<longrightarrow> DoneRunning s = Aborted ''scheduler.status == Status::Running'')"
  by (cases m)
     (auto simp: DoneRunning_def PushTask_def PushHandleTask_def PushInterrupt_def
        PushSyncInterrupt_def TakeTasks_def TakeHandleTasks_def TakeInterrupts_def
        TakeSyncInterrupts_def WakeIsolate_def IncrementUvRef_def InterruptIsolate_def
        InterruptSyncIsolate_def Let_def split: if_splits)

theorem Status_transitions_witness:
  "final_state (call_lock steady (CallWakeIsolate True False 10) (quiet, idle, isolate sandbox)) =
     Some (quiet\<lparr>uv_ref_count := 1, root_async_calls := [uv_ref], thread_pool := [(3, 10)]\<rparr>,
           idle\<lparr>status := Running\<rparr>, isolate sandbox) \<and>
   status (idle\<lparr>status := Running\<rparr>) \<noteq> status idle \<and>
   final_state (call_lock steady CallDoneRunning (quiet, idle\<lparr>status := Running\<rparr>, isolate sandbox)) =
     Some (quiet, idle, isolate sandbox) \<and>
   DoneRunning (idle\<lparr>status := Running\<rparr>) = Ok idle \<and>
   DoneRunning idle = Aborted ''scheduler.status == Status::Running''"
  using Status_transitions [of steady "CallWakeIsolate True False 10" quiet idle "isolate sandbox"
      "quiet\<lparr>uv_ref_count := 1, root_async_calls := [uv_ref], thread_pool := [(3, 10)]\<rparr>"
      "idle\<lparr>status := Running\<rparr>" "isolate sandbox"]
    Status_transitions [of steady CallDoneRunning quiet "idle\<lparr>status := Running\<rparr>" "isolate sandbox"
      quiet idle "isolate sandbox"]
    Status_transitions [of steady CallDoneRunning quiet idle "isolate sandbox" quiet idle "isolate sandbox"]
  by (simp add: idle_def quiet_def WakeIsolate_def IncrementUvRef_def DoneRunning_def Let_def)

subsection \<open>HeapCheck\<close>

text \<open>
  C3. In a non-root environment whose check is forced, or whose \<open>extra_allocated_memory\<close>
  differs from the value the check was constructed with: if
  \<open>used_heap_size + extra_allocated_memory > memory_limit\<close> (in \<^verbatim>\<open>size_t\<close>) holds, and
  holds again with the statistics read after \<^verbatim>\<open>LowMemoryNotification\<close>, the epilogue throws
  the fatal error and leaves \<open>hit_memory_limit\<close> and \<open>terminated\<close> set. If the second
  comparison fails, it returns, and the environment differs only in its engine, which
  has received the notification. If the environment is root, or the check is neither
  forced nor the extra allocation changed, or the first comparison fails, it returns and
  nothing has changed.
\<close>

theorem HeapCheck_Epilogue_limit:
  "(\<not> root env \<and> (force hc \<or> extra_allocated_memory env \<noteq> extra_size_before hc) \<and>
      used_heap_size (heap (isolate env)) + extra_allocated_memory env > memory_limit env \<and>
      used_heap_size (engine LowMemoryNotification (isolate env)) + extra_allocated_memory env
        > memory_limit env \<longrightarrow>
      (\<exists>env'. Epilogue engine hc env =
           Threw (js_fatal_error ''Isolate was disposed during execution due to memory limit'') env' \<and>
         hit_memory_limit env' \<and> terminated env')) \<and>
   (\<not> root env \<and> (force hc \<or> extra_allocated_memory env \<noteq> extra_size_before hc) \<and>
      used_heap_size (heap (isolate env)) + extra_allocated_memory env > memory_limit env \<and>
      \<not> used_heap_size (engine LowMemoryNotification (isolate env)) + extra_allocated_memory env
        > memory_limit env \<longrightarrow>
      Epilogue engine hc env = Ok (env\<lparr>isolate := v8 engine LowMemoryNotification (isolate env)\<rparr>)) \<and>
   (root env \<or> \<not> (force hc \<or> extra_allocated_memory env \<noteq> extra_size_before hc) \<or>
      \<not> used_heap_size (heap (isolate env)) + extra_allocated_memory env > memory_limit env \<longrightarrow>
      Epilogue engine hc env = Ok env)"
  by (cases "inspector_agent env") (auto simp: Epilogue_def Terminate_def Let_def v8_def)

theorem HeapCheck_Epilogue_limit_witness:
  "(\<exists>env'. Epilogue steady (HeapCheck sandbox True) (sandbox\<lparr>extra_allocated_memory := 150\<rparr>) =
       Threw (js_fatal_error ''Isolate was disposed during execution due to memory limit'') env' \<and>
     hit_memory_limit env' \<and> terminated env') \<and>
   Epilogue collecting (HeapCheck sandbox False) (sandbox\<lparr>extra_allocated_memory := 60\<rparr>) =
     Ok (sandbox\<lparr>extra_allocated_memory := 60,
          isolate := \<lparr>address = 100, heap = \<lparr>used_heap_size = 25, heap_size_limit = 200\<rparr>,
                      calls = [LowMemoryNotification]\<rparr>\<rparr>) \<and>
   Epilogue steady (HeapCheck sandbox False) sandbox = Ok sandbox"
  using HeapCheck_Epilogue_limit [of "sandbox\<lparr>extra_allocated_memory := 150\<rparr>" "HeapCheck sandbox True" steady]
    HeapCheck_Epilogue_limit [of "sandbox\<lparr>extra_allocated_memory := 60\<rparr>" "HeapCheck sandbox False" collecting]
    HeapCheck_Epilogue_limit [of sandbox "HeapCheck sandbox False" steady]
  by (simp add: sandbox_def HeapCheck_def steady_def collecting_def v8_def)

subsection \<open>The garbage collection epilogue\<close>

lemma granted_eq:
  "granted = sandbox\<lparr>did_adjust_heap_limit := True, memory_pressure := kModerate,
      isolate := \<lparr>address = 100, heap = \<lparr>used_heap_size = 50, heap_size_limit = 200 + 2 * 1073741824\<rparr>,
                  calls = [RequestInterrupt MemoryPressureInterrupt, RequestInterrupt MemoryPressureInterrupt]\<rparr>\<rparr>"
  by (simp add: granted_def NearHeapLimitCallback_def RequestMemoryPressureNotification.simps
        sandbox_def steady_def v8_def Let_def)

text \<open>
  C5, as stated: with the total under the limit, the heap limit is ratcheted back only
  if the load is under 80%. At a load of 90% (180 of 200), after a garbage collection
  that was not a collect-all pass, with an expansion active, the callback is removed with
  the memory limit and added again, and the flag is cleared, as well as the moderate
  notification sent.
\<close>

theorem MarkSweepCompactEpilogue_counterexample:
  "map_option (\<lambda>that. (calls (isolate that), did_adjust_heap_limit that))
     (final_state (MarkSweepCompactEpilogue collecting True False 0 loaded)) =
   Some ([RemoveNearHeapLimitCallback 100, AddNearHeapLimitCallback,
          MemoryPressureNotification kModerate], False)"
  by (simp add: MarkSweepCompactEpilogue.simps RequestMemoryPressureNotification.simps
        loaded_def sandbox_def collecting_def Let_def v8_def
        kGCCallbackFlagCollectAllAvailableGarbage_def)

text \<open>
  C5, amended. When \<open>used_heap_size + extra_allocated_memory\<close> does not exceed
  \<open>memory_limit + misc_memory_size\<close>, the epilogue returns, and
  \<^item> the near-heap-limit callback is removed with the memory limit and added again exactly
    when the garbage collection was not a collect-all pass and an expansion is active,
    whatever the load; the flag is cleared exactly when the engine then reports the
    initial heap size limit;
  \<^item> a moderate memory pressure notification is requested exactly when the garbage
    collection was not a collect-all pass and \<open>total + total div 4\<close> exceeds the limit:
    either \<^verbatim>\<open>MemoryPressureNotification\<close> is called with the moderate level and
    \<open>memory_pressure\<close> is left at none, or (before v8 6.9.406, or when \<^verbatim>\<open>as_interrupt\<close>
    defaults to true) the moderate level is stored in \<open>memory_pressure\<close> and
    \<^verbatim>\<open>MemoryPressureInterrupt\<close> is requested from the engine, whose
    \<^verbatim>\<open>CheckMemoryPressure\<close> then calls \<^verbatim>\<open>MemoryPressureNotification\<close> with the moderate
    level; when no notification is requested \<open>memory_pressure\<close> stays as it is;
  \<^item> \<open>hit_memory_limit\<close> and \<open>terminated\<close> stay as they are.
\<close>

theorem MarkSweepCompactEpilogue_under_limit:
  "used_heap_size (heap (isolate that)) + extra_allocated_memory that
      \<le> memory_limit that + misc_memory_size that \<longrightarrow>
   (\<exists>that'. MarkSweepCompactEpilogue engine at_least dflt gc_flags that = Ok that' \<and>
      calls (isolate that') =
        calls (isolate that) @
        (if gc_flags AND kGCCallbackFlagCollectAllAvailableGarbage = 0 \<and> did_adjust_heap_limit that
         then [RemoveNearHeapLimitCallback (memory_limit that), AddNearHeapLimitCallback] else []) @
        (if gc_flags AND kGCCallbackFlagCollectAllAvailableGarbage = 0 \<and>
            (used_heap_size (heap (isolate that)) + extra_allocated_memory that) +
            (used_heap_size (heap (isolate that)) + extra_allocated_memory that) div 4
              > memory_limit that + misc_memory_size that
         then [if \<not> at_least \<or> dflt then RequestInterrupt MemoryPressureInterrupt
               else MemoryPressureNotification kModerate]
         else []) \<and>
      did_adjust_heap_limit that' =
        (did_adjust_heap_limit that \<and>
         \<not> (gc_flags AND kGCCallbackFlagCollectAllAvailableGarbage = 0 \<and>
            heap_size_limit (engine AddNearHeapLimitCallback
               (v8 engine (RemoveNearHeapLimitCallback (memory_limit that)) (isolate that)))
              = initial_heap_size_limit that)) \<and>
      memory_pressure that' =
        (if gc_flags AND kGCCallbackFlagCollectAllAvailableGarbage = 0 \<and>
            (used_heap_size (heap (isolate that)) + extra_allocated_memory that) +
            (used_heap_size (heap (isolate that)) + extra_allocated_memory that) div 4
              > memory_limit that + misc_memory_size that
         then (if \<not> at_least \<or> dflt then kModerate else kNone)
         else memory_pressure that) \<and>
      (gc_flags AND kGCCallbackFlagCollectAllAvailableGarbage = 0 \<and>
       (used_heap_size (heap (isolate that)) + extra_allocated_memory that) +
       (used_heap_size (heap (isolate that)) + extra_allocated_memory that) div 4
         > memory_limit that + misc_memory_size that \<and> (\<not> at_least \<or> dflt) \<longrightarrow>
         calls (isolate (CheckMemoryPressure engine that')) =
           calls (isolate that') @ [MemoryPressureNotification kModerate] \<and>
         memory_pressure (CheckMemoryPressure engine that') = kNone) \<and>
      hit_memory_limit that' = hit_memory_limit that \<and> terminated that' = terminated that)"
proof
  assume under: "used_heap_size (heap (isolate that)) + extra_allocated_memory that
      \<le> memory_limit that + misc_memory_size that"
  then have not_over: "\<not> used_heap_size (heap (isolate that)) + extra_allocated_memory that
      > memory_limit that + misc_memory_size that"
    by simp
  show "\<exists>that'. MarkSweepCompactEpilogue engine at_least dflt gc_flags that = Ok that' \<and>
      calls (isolate that') =
        calls (isolate that) @
        (if gc_flags AND kGCCallbackFlagCollectAllAvailableGarbage = 0 \<and> did_adjust_heap_limit that
         then [RemoveNearHeapLimitCallback (memory_limit that), AddNearHeapLimitCallback] else []) @
        (if gc_flags AND kGCCallbackFlagCollectAllAvailableGarbage = 0 \<and>
            (used_heap_size (heap (isolate that)) + extra_allocated_memory that) +
            (used_heap_size (heap (isolate that)) + extra_allocated_memory that) div 4
              > memory_limit that + misc_memory_size that
         then [if \<not> at_least \<or> dflt then RequestInterrupt MemoryPressureInterrupt
               else MemoryPressureNotification kModerate]
         else []) \<and>
      did_adjust_heap_limit that' =
        (did_adjust_heap_limit that \<and>
         \<not> (gc_flags AND kGCCallbackFlagCollectAllAvailableGarbage = 0 \<and>
            heap_size_limit (engine AddNearHeapLimitCallback
               (v8 engine (RemoveNearHeapLimitCallback (memory_limit that)) (isolate that)))
              = initial_heap_size_limit that)) \<and>
      memory_pressure that' =
        (if gc_flags AND kGCCallbackFlagCollectAllAvailableGarbage = 0 \<and>
            (used_heap_size (heap (isolate that)) + extra_allocated_memory that) +
            (used_heap_size (heap (isolate that)) + extra_allocated_memory that) div 4
              > memory_limit that + misc_memory_size that
         then (if \<not> at_least \<or> dflt then kModerate else kNone)
         else memory_pressure that) \<and>
      (gc_flags AND kGCCallbackFlagCollectAllAvailableGarbage = 0 \<and>
       (used_heap_size (heap (isolate that)) + extra_allocated_memory that) +
       (used_heap_size (heap (isolate that)) + extra_allocated_memory that) div 4
         > memory_limit that + misc_memory_size that \<and> (\<not> at_least \<or> dflt) \<longrightarrow>
         calls (isolate (CheckMemoryPressure engine that')) =
           calls (isolate that') @ [MemoryPressureNotification kModerate] \<and>
         memory_pressure (CheckMemoryPressure engine that') = kNone) \<and>
      hit_memory_limit that' = hit_memory_limit that \<and> terminated that' = terminated that"
    unfolding MarkSweepCompactEpilogue.simps [of engine at_least dflt gc_flags that]
    using not_over
    by (simp add: Let_def v8_def RequestMemoryPressureNotification.simps CheckMemoryPressure_def)
qed

theorem MarkSweepCompactEpilogue_witness:
  "(\<exists>that'. MarkSweepCompactEpilogue collecting True False 0 loaded = Ok that' \<and>
     calls (isolate that') = [RemoveNearHeapLimitCallback 100, AddNearHeapLimitCallback,
          MemoryPressureNotification kModerate] \<and>
     memory_pressure that' = kNone \<and> \<not> did_adjust_heap_limit that') \<and>
   (\<exists>that'. MarkSweepCompactEpilogue collecting False False 0 loaded = Ok that' \<and>
     calls (isolate that') = [RemoveNearHeapLimitCallback 100, AddNearHeapLimitCallback,
          RequestInterrupt MemoryPressureInterrupt] \<and>
     memory_pressure that' = kModerate \<and>
     calls (isolate (CheckMemoryPressure collecting that')) =
       [RemoveNearHeapLimitCallback 100, AddNearHeapLimitCallback,
        RequestInterrupt MemoryPressureInterrupt, MemoryPressureNotification kModerate]) \<and>
   did_adjust_heap_limit granted \<and>
   (\<exists>that'. MarkSweepCompactEpilogue collecting True False 0 granted = Ok that' \<and>
     calls (isolate that') = [RequestInterrupt MemoryPressureInterrupt,
          RequestInterrupt MemoryPressureInterrupt,
          RemoveNearHeapLimitCallback 100, AddNearHeapLimitCallback] \<and>
     \<not> did_adjust_heap_limit that')"
  using MarkSweepCompactEpilogue_under_limit [of loaded collecting True False 0]
    MarkSweepCompactEpilogue_under_limit [of loaded collecting False False 0]
    MarkSweepCompactEpilogue_under_limit [of granted collecting True False 0]
  by (auto simp: loaded_def granted_eq sandbox_def collecting_def v8_def
        kGCCallbackFlagCollectAllAvailableGarbage_def)

subsection \<open>Terminate\<close>

text \<open>
  C6. On the root environment \<^verbatim>\<open>Terminate\<close> fails: its assertion \<^verbatim>\<open>!root\<close> aborts. On any
  other environment it returns with \<open>terminated\<close> set, the inspector agent (if there is
  one) told to terminate, \<^verbatim>\<open>TerminateExecution\<close> called on the engine, and the holder's
  reference reset.
\<close>

theorem Terminate_root_fails_else_terminates:
  "(root env \<longrightarrow> Terminate engine env = Aborted ''!root'') \<and>
   (\<not> root env \<longrightarrow>
      (\<exists>env'. Terminate engine env = Ok env' \<and> terminated env' \<and>
         inspector_agent env' =
           map_option (\<lambda>agent. agent\<lparr>terminate_requested := True\<rparr>) (inspector_agent env) \<and>
         calls (isolate env') = calls (isolate env) @ [TerminateExecution] \<and>
         holder_isolate (holder env') = None))"
  by (cases "inspector_agent env") (simp_all add: Terminate_def Let_def v8_def)

theorem Terminate_witness:
  "root (sandbox\<lparr>root := True\<rparr>) \<and> Terminate steady (sandbox\<lparr>root := True\<rparr>) = Aborted ''!root'' \<and>
   \<not> root sandbox \<and>
   (\<exists>env'. Terminate steady sandbox = Ok env' \<and> terminated env' \<and>
      inspector_agent env' = Some \<lparr>terminate_requested = True\<rparr> \<and>
      calls (isolate env') = [TerminateExecution] \<and>
      holder_isolate (holder env') = None)"
  using Terminate_root_fails_else_terminates [of "sandbox\<lparr>root := True\<rparr>" steady]
    Terminate_root_fails_else_terminates [of sandbox steady]
  by (simp add: sandbox_def)

subsection \<open>Weak callbacks\<close>

lemma map_of_push_back:
  "map_of xs k = None \<Longrightarrow> map_of (xs @ [(k, v)]) = (map_of xs)(k \<mapsto> v)"
  by (induction xs) (auto simp: fun_eq_iff simp del: map_of_append)

lemma map_of_erase:
  "map_of (filter (\<lambda>p. fst p \<noteq> k) xs) = (map_of xs)(k := None)"
  by (induction xs) (auto simp: fun_eq_iff)

text \<open>
  C8. On the root environment \<^verbatim>\<open>AddWeakCallback\<close> and \<^verbatim>\<open>RemoveWeakCallback\<close> return and
  change nothing. On any other: adding a handle that is in the table throws
  \<^verbatim>\<open>logic_error\<close> and the environment is as before, and removing it returns with that
  handle's entry gone and every other entry kept; removing a handle that is not in the
  table throws \<^verbatim>\<open>logic_error\<close> and the environment is as before, and adding it returns
  with that entry in the table and every other entry kept. Nothing but the table changes.
\<close>

theorem weak_callbacks_add_remove:
  "(root env \<longrightarrow> AddWeakCallback handle fn param env = Ok env \<and> RemoveWeakCallback handle env = Ok env) \<and>
   (\<not> root env \<and> map_of (weak_persistents env) handle \<noteq> None \<longrightarrow>
      AddWeakCallback handle fn param env = Threw (logic_error ''Weak callback already added'') env \<and>
      (\<exists>env'. RemoveWeakCallback handle env = Ok env' \<and>
         env' = env\<lparr>weak_persistents := weak_persistents env'\<rparr> \<and>
         map_of (weak_persistents env') = (map_of (weak_persistents env))(handle := None))) \<and>
   (\<not> root env \<and> map_of (weak_persistents env) handle = None \<longrightarrow>
      RemoveWeakCallback handle env = Threw (logic_error ''Weak callback doesn't exist'') env \<and>
      (\<exists>env'. AddWeakCallback handle fn param env = Ok env' \<and>
         env' = env\<lparr>weak_persistents := weak_persistents env'\<rparr> \<and>
         map_of (weak_persistents env') = (map_of (weak_persistents env))(handle \<mapsto> (fn, param))))"
  by (auto simp: AddWeakCallback_def RemoveWeakCallback_def map_of_push_back map_of_erase
      simp del: map_of_append)

theorem weak_callbacks_witness:
  "AddWeakCallback 1 2 3 (sandbox\<lparr>root := True\<rparr>) = Ok (sandbox\<lparr>root := True\<rparr>) \<and>
   RemoveWeakCallback 1 (sandbox\<lparr>root := True\<rparr>) = Ok (sandbox\<lparr>root := True\<rparr>) \<and>
   AddWeakCallback 1 2 3 (sandbox\<lparr>weak_persistents := [(1, 8, 9)]\<rparr>) =
     Threw (logic_error ''Weak callback already added'') (sandbox\<lparr>weak_persistents := [(1, 8, 9)]\<rparr>) \<and>
   (\<exists>env'. RemoveWeakCallback 1 (sandbox\<lparr>weak_persistents := [(1, 8, 9)]\<rparr>) = Ok env' \<and>
      map_of (weak_persistents env') 1 = None) \<and>
   RemoveWeakCallback 1 sandbox = Threw (logic_error ''Weak callback doesn't exist'') sandbox \<and>
   (\<exists>env'. AddWeakCallback 1 2 3 sandbox = Ok env' \<and> map_of (weak_persistents env') 1 = Some (2, 3))"
  using weak_callbacks_add_remove [of "sandbox\<lparr>root := True\<rparr>" 1 2 3]
    weak_callbacks_add_remove [of "sandbox\<lparr>weak_persistents := [(1, 8, 9)]\<rparr>" 1 2 3]
    weak_callbacks_add_remove [of sandbox 1 2 3]
  by (auto simp: sandbox_def)

subsection \<open>LookupIsolate\<close>

text \<open>
  C10. \<^verbatim>\<open>LookupIsolate\<close> of an engine instance that is not in \<open>isolate_map\<close> returns a
  null holder and raises nothing; of one that is, it returns the holder of the
  environment the map gives.
\<close>

theorem LookupIsolate_registry:
  "(isolate_map bk isolate' = None \<longrightarrow> LookupIsolate bk envs isolate' = Ok None) \<and>
   (isolate_map bk isolate' = Some it \<and> envs it = Some env \<longrightarrow>
      LookupIsolate bk envs isolate' = Ok (Some (holder env)))"
  by (simp add: LookupIsolate_def)

theorem LookupIsolate_witness:
  "LookupIsolate \<lparr>isolate_map = [100 \<mapsto> 10]\<rparr> [10 \<mapsto> sandbox] 101 = Ok None \<and>
   LookupIsolate \<lparr>isolate_map = [100 \<mapsto> 10]\<rparr> [10 \<mapsto> sandbox] 100 = Ok (Some \<lparr>holder_isolate = Some 10\<rparr>)"
  using LookupIsolate_registry [of "\<lparr>isolate_map = [100 \<mapsto> 10]\<rparr>" 101 "[10 \<mapsto> sandbox]"]
    LookupIsolate_registry [of "\<lparr>isolate_map = [100 \<mapsto> 10]\<rparr>" 100 "[10 \<mapsto> sandbox]" 10 sandbox]
  by (simp add: sandbox_def)

subsection \<open>Destruction\<close>










subsection \<open>AsyncWait\<close>

lemma rendezvous_step: "rendezvous w \<Longrightarrow> rendezvous (wait_step e w)"
  by (cases e) (auto simp: rendezvous_def Ready_def Wake_def Wait_test_def notify_one_def Let_def)

lemma rendezvous_fold: "rendezvous w \<Longrightarrow> rendezvous (fold wait_step es w)"
  by (induction es arbitrary: w) (simp_all add: rendezvous_step)

text \<open>
  C9. After any sequence of calls of \<^verbatim>\<open>Ready\<close> and \<^verbatim>\<open>Wake\<close>, in any order and any number,
  and steps of the thread in \<^verbatim>\<open>Wait\<close>: the thread is back from \<^verbatim>\<open>Wait\<close> only if both
  flags are set, so neither call alone releases it; once both are set it is not left
  parked, and its next step (entering \<^verbatim>\<open>Wait\<close>, or resuming after the notification)
  takes it out of \<^verbatim>\<open>Wait\<close>; and \<^verbatim>\<open>notify_one\<close> has been called only if both flags are
  set. \<^verbatim>\<open>Ready\<close> sets \<open>ready\<close> and notifies exactly when it finds \<open>done\<close> set; \<^verbatim>\<open>Wake\<close>
  sets \<open>done\<close> and notifies exactly when it finds \<open>ready\<close> set.
\<close>

theorem AsyncWait_rendezvous:
  "(wait_cv w0 = Outside \<and> notify_calls w0 = 0 \<and> w = fold wait_step es w0 \<longrightarrow>
      (wait_cv w = Returned \<longrightarrow> ready (async_wait w) \<and> done' (async_wait w)) \<and>
      (ready (async_wait w) \<and> done' (async_wait w) \<longrightarrow> wait_cv w \<noteq> Parked) \<and>
      (ready (async_wait w) \<and> done' (async_wait w) \<and> wait_cv w = Outside \<longrightarrow>
         wait_cv (wait_step CallWait w) = Returned) \<and>
      (ready (async_wait w) \<and> done' (async_wait w) \<and> wait_cv w = Notified \<longrightarrow>
         wait_cv (wait_step Resume w) = Returned) \<and>
      (0 < notify_calls w \<longrightarrow> ready (async_wait w) \<and> done' (async_wait w))) \<and>
   notify_calls (Ready v) = notify_calls v + (if done' (async_wait v) then 1 else 0) \<and>
   notify_calls (Wake v) = notify_calls v + (if ready (async_wait v) then 1 else 0) \<and>
   ready (async_wait (Ready v)) \<and> done' (async_wait (Ready v)) = done' (async_wait v) \<and>
   done' (async_wait (Wake v)) \<and> ready (async_wait (Wake v)) = ready (async_wait v)"
proof -
  have trace: "wait_cv w0 = Outside \<and> notify_calls w0 = 0 \<and> w = fold wait_step es w0 \<longrightarrow>
      (wait_cv w = Returned \<longrightarrow> ready (async_wait w) \<and> done' (async_wait w)) \<and>
      (ready (async_wait w) \<and> done' (async_wait w) \<longrightarrow> wait_cv w \<noteq> Parked) \<and>
      (ready (async_wait w) \<and> done' (async_wait w) \<and> wait_cv w = Outside \<longrightarrow>
         wait_cv (wait_step CallWait w) = Returned) \<and>
      (ready (async_wait w) \<and> done' (async_wait w) \<and> wait_cv w = Notified \<longrightarrow>
         wait_cv (wait_step Resume w) = Returned) \<and>
      (0 < notify_calls w \<longrightarrow> ready (async_wait w) \<and> done' (async_wait w))"
  proof
    assume a: "wait_cv w0 = Outside \<and> notify_calls w0 = 0 \<and> w = fold wait_step es w0"
    then have "rendezvous w0" by (simp add: rendezvous_def)
    then have "rendezvous (fold wait_step es w0)" by (rule rendezvous_fold)
    with a have "rendezvous w" by simp
    then show "(wait_cv w = Returned \<longrightarrow> ready (async_wait w) \<and> done' (async_wait w)) \<and>
      (ready (async_wait w) \<and> done' (async_wait w) \<longrightarrow> wait_cv w \<noteq> Parked) \<and>
      (ready (async_wait w) \<and> done' (async_wait w) \<and> wait_cv w = Outside \<longrightarrow>
         wait_cv (wait_step CallWait w) = Returned) \<and>
      (ready (async_wait w) \<and> done' (async_wait w) \<and> wait_cv w = Notified \<longrightarrow>
         wait_cv (wait_step Resume w) = Returned) \<and>
      (0 < notify_calls w \<longrightarrow> ready (async_wait w) \<and> done' (async_wait w))"
      by (auto simp: rendezvous_def Wait_test_def)
  qed
  have calls: "notify_calls (Ready v) = notify_calls v + (if done' (async_wait v) then 1 else 0) \<and>
     notify_calls (Wake v) = notify_calls v + (if ready (async_wait v) then 1 else 0) \<and>
     ready (async_wait (Ready v)) \<and> done' (async_wait (Ready v)) = done' (async_wait v) \<and>
     done' (async_wait (Wake v)) \<and> ready (async_wait (Wake v)) = ready (async_wait v)"
    by (simp add: Ready_def Wake_def notify_one_def Let_def)
  from trace calls show ?thesis by (rule conjI)
qed

theorem AsyncWait_rendezvous_witness:
  "wait_cv (fold wait_step [CallWait, CallReady] fresh) = Parked \<and>
   wait_cv (fold wait_step [CallWait, CallWake] fresh) = Parked \<and>
   wait_cv (fold wait_step [CallWait, CallReady, CallWake] fresh) = Notified \<and>
   wait_cv (fold wait_step [CallWait, CallWake, CallReady] fresh) = Notified \<and>
   wait_cv (wait_step Resume (fold wait_step [CallWait, CallReady, CallWake] fresh)) = Returned \<and>
   wait_cv (wait_step Resume (fold wait_step [CallWait, CallWake, CallReady] fresh)) = Returned \<and>
   wait_cv (wait_step CallWait (fold wait_step [CallWake, CallReady] fresh)) = Returned \<and>
   notify_calls (Ready fresh) = 0 \<and> notify_calls (Wake (Ready fresh)) = 1"
proof -
  have parked:
    "wait_cv (fold wait_step [CallWait, CallReady] fresh) = Parked"
    "wait_cv (fold wait_step [CallWait, CallWake] fresh) = Parked"
    by (simp_all add: fresh_def Ready_def Wake_def Wait_test_def notify_one_def Let_def)
  have notified:
    "wait_cv (fold wait_step [CallWait, CallReady, CallWake] fresh) = Notified"
    "wait_cv (fold wait_step [CallWait, CallWake, CallReady] fresh) = Notified"
    "wait_cv (fold wait_step [CallWake, CallReady] fresh) = Outside"
    by (simp_all add: fresh_def Ready_def Wake_def Wait_test_def notify_one_def Let_def)
  have flags:
    "ready (async_wait (fold wait_step [CallWait, CallReady, CallWake] fresh)) \<and>
     done' (async_wait (fold wait_step [CallWait, CallReady, CallWake] fresh))"
    "ready (async_wait (fold wait_step [CallWait, CallWake, CallReady] fresh)) \<and>
     done' (async_wait (fold wait_step [CallWait, CallWake, CallReady] fresh))"
    "ready (async_wait (fold wait_step [CallWake, CallReady] fresh)) \<and>
     done' (async_wait (fold wait_step [CallWake, CallReady] fresh))"
    by (simp_all add: fresh_def Ready_def Wake_def Wait_test_def notify_one_def Let_def)
  have start: "wait_cv fresh = Outside \<and> notify_calls fresh = 0" "\<not> done' (async_wait fresh)"
    "ready (async_wait (Ready fresh))"
    by (simp_all add: fresh_def Ready_def Let_def)
  from AsyncWait_rendezvous [of fresh "fold wait_step [CallWait, CallReady, CallWake] fresh"
      "[CallWait, CallReady, CallWake]" fresh]
    AsyncWait_rendezvous [of fresh "fold wait_step [CallWait, CallWake, CallReady] fresh"
      "[CallWait, CallWake, CallReady]" "Ready fresh"]
    AsyncWait_rendezvous [of fresh "fold wait_step [CallWake, CallReady] fresh"
      "[CallWake, CallReady]" fresh]
    parked notified flags start
  show ?thesis by simp
qed

end
